theory Spec2Isabelle
  imports Main "HOL-Library.AList"
begin

unbundle bit_operations_syntax

section \<open>The build configuration\<close>

text \<open>
  \<^verbatim>\<open>hello.c\<close> is compiled with or without the two preprocessor macros
  \<^verbatim>\<open>HELLO_MACRO\<close> and \<^verbatim>\<open>DYNAMIC_MACRO\<close>. The source only asks whether each
  is defined (\<^verbatim>\<open>defined(...)\<close>), never for its value, so a build configuration is
  two booleans.
\<close>

record build_config =
  HELLO_MACRO :: bool
  DYNAMIC_MACRO :: bool

section \<open>The host runtime\<close>

text \<open>
  The functions and types of \<^verbatim>\<open>Python.h\<close> belong to the CPython runtime, not to
  the repository. They are modelled here after the CPython C API reference, as far
  as \<^verbatim>\<open>hello.c\<close> uses them.

  A \<^verbatim>\<open>PyObject*\<close> is an address; address 0 is \<^verbatim>\<open>NULL\<close>. The interpreter
  state is the object heap together with the error indicator (the pending
  exception). Address \<open>a > 0\<close> names the \<open>a\<close>-th object ever allocated. Objects
  are never freed and reference counts are not modelled. The allocator
  \<open>alloc\<close> of this section always has room; the host that can run out of
  memory is the subject of a section of its own below.
\<close>

type_synonym addr = nat

definition NULL :: addr where
  "NULL = 0"

datatype PyErr =
    UnicodeDecodeError | TypeError | ValueError | SystemError
  | AttributeError | ImportError | MemoryError

text \<open>A function pointer names a function of the translation unit.\<close>

datatype code_ptr = Fn_hello_world

text \<open>
  \<^verbatim>\<open>struct PyMethodDef { const char *ml_name; PyCFunction ml_meth; int ml_flags;
  const char *ml_doc; }\<close>. A pointer member that may be \<^verbatim>\<open>NULL\<close> is an option.
\<close>

record PyMethodDef =
  ml_name :: "string option"
  ml_meth :: "code_ptr option"
  ml_flags :: int
  ml_doc :: "string option"

text \<open>
  The values of objects. A text object is represented by its UTF-8 encoding, which
  identifies it. A built-in function object holds its method definition and the
  object it is bound to (\<^verbatim>\<open>m_ml\<close>, \<^verbatim>\<open>m_self\<close>). A module object holds its
  name, its attribute dictionary and its per-module state block
  (\<^verbatim>\<open>md_state\<close>: the size of the block, \<open>None\<close> for \<^verbatim>\<open>NULL\<close>). The
  dictionary lists the attributes set after the module object was made; those
  every fresh module has (\<^verbatim>\<open>__name__\<close>, \<^verbatim>\<open>__package__\<close> and so on) are left
  out.
\<close>

datatype PyValue =
    PyNoneV
  | PyLongV int
  | PyUnicodeV string
  | PyTupleV "addr list"
  | PyCFunctionV PyMethodDef addr
  | PyModuleV string "(string \<times> addr) list" "nat option"

record interp =
  heap :: "PyValue list"
  err :: "PyErr option"

definition obj_at :: "interp \<Rightarrow> addr \<Rightarrow> PyValue option" where
  "obj_at st a =
     (if a = NULL \<or> length (heap st) < a then None else Some (heap st ! (a - 1)))"

definition alloc :: "PyValue \<Rightarrow> interp \<Rightarrow> addr \<times> interp" where
  "alloc v st = (Suc (length (heap st)), st\<lparr>heap := heap st @ [v]\<rparr>)"

definition raise_err :: "PyErr \<Rightarrow> interp \<Rightarrow> addr \<times> interp" where
  "raise_err e st = (NULL, st\<lparr>err := Some e\<rparr>)"

text \<open>The text of the object at an address, when there is a text object there.\<close>

definition text_at :: "interp \<Rightarrow> addr \<Rightarrow> string option" where
  "text_at st a =
     (case obj_at st a of Some (PyUnicodeV s) \<Rightarrow> Some s | _ \<Rightarrow> None)"

definition returned_text :: "addr \<times> interp \<Rightarrow> string option" where
  "returned_text res = text_at (snd res) (fst res)"

subsection \<open>\<^verbatim>\<open>PyUnicode_FromString\<close>\<close>

text \<open>
  \<^verbatim>\<open>PyUnicode_FromString(const char *u)\<close> decodes the NUL-terminated buffer
  \<open>u\<close> as UTF-8 in strict mode and returns a new text object, or \<^verbatim>\<open>NULL\<close> with
  \<^verbatim>\<open>UnicodeDecodeError\<close> set when the bytes are not well-formed UTF-8
  (Unicode Standard, table 3-7: no overlong forms, no surrogates, nothing above
  U+10FFFF).
\<close>

definition utf8_cont :: "nat \<Rightarrow> bool" where
  "utf8_cont b = (0x80 \<le> b \<and> b \<le> 0xBF)"

fun utf8_valid :: "nat list \<Rightarrow> bool" where
  "utf8_valid [] = True"
| "utf8_valid (b # bs) =
     (if b \<le> 0x7F then utf8_valid bs
      else if 0xC2 \<le> b \<and> b \<le> 0xDF then
        (case bs of
           c1 # r \<Rightarrow> utf8_cont c1 \<and> utf8_valid r
         | _ \<Rightarrow> False)
      else if 0xE0 \<le> b \<and> b \<le> 0xEF then
        (case bs of
           c1 # c2 # r \<Rightarrow>
             (if b = 0xE0 then 0xA0 \<le> c1 \<and> c1 \<le> 0xBF
              else if b = 0xED then 0x80 \<le> c1 \<and> c1 \<le> 0x9F
              else utf8_cont c1)
             \<and> utf8_cont c2 \<and> utf8_valid r
         | _ \<Rightarrow> False)
      else if 0xF0 \<le> b \<and> b \<le> 0xF4 then
        (case bs of
           c1 # c2 # c3 # r \<Rightarrow>
             (if b = 0xF0 then 0x90 \<le> c1 \<and> c1 \<le> 0xBF
              else if b = 0xF4 then 0x80 \<le> c1 \<and> c1 \<le> 0x8F
              else utf8_cont c1)
             \<and> utf8_cont c2 \<and> utf8_cont c3 \<and> utf8_valid r
         | _ \<Rightarrow> False)
      else False)"

text \<open>The bytes of a C string: those before the first NUL.\<close>

definition c_str :: "string \<Rightarrow> string" where
  "c_str u = takeWhile (\<lambda>c. c \<noteq> CHR 0x00) u"

definition PyUnicode_FromString :: "string \<Rightarrow> interp \<Rightarrow> addr \<times> interp" where
  "PyUnicode_FromString u st =
     (if utf8_valid (map of_char (c_str u))
      then alloc (PyUnicodeV (c_str u)) st
      else raise_err UnicodeDecodeError st)"

section \<open>\<^verbatim>\<open>hello_world\<close>\<close>

text \<open>
  \<^verbatim>\<open>static PyObject* hello_world(PyObject* self, PyObject* args)\<close>: the
  \<^verbatim>\<open>#if\<close> / \<^verbatim>\<open>#elif\<close> / \<^verbatim>\<open>#else\<close> chain keeps one of three
  \<^verbatim>\<open>return\<close> statements, in this order.
\<close>

definition hello_world :: "build_config \<Rightarrow> addr \<Rightarrow> addr \<Rightarrow> interp \<Rightarrow> addr \<times> interp" where
  "hello_world cfg self args =
     (if HELLO_MACRO cfg \<and> DYNAMIC_MACRO cfg then
        PyUnicode_FromString ''Hello from Zig CC with Macro and Dynamic Macro!''
      else if HELLO_MACRO cfg then
        PyUnicode_FromString ''Hello from Zig CC with Macro!''
      else
        PyUnicode_FromString ''Hello from Zig CC!'')"

section \<open>Module objects and calls in the host\<close>

text \<open>
  \<^verbatim>\<open>struct PyModuleDef\<close>, with the members the initializer in \<^verbatim>\<open>hello.c\<close>
  names. \<^verbatim>\<open>m_base\<close> (\<^verbatim>\<open>PyModuleDef_HEAD_INIT\<close>) is bookkeeping of the runtime
  and is left out; \<^verbatim>\<open>m_slots\<close>, \<^verbatim>\<open>m_traverse\<close>, \<^verbatim>\<open>m_clear\<close> and
  \<^verbatim>\<open>m_free\<close> are not named by the initializer, so C sets them to \<^verbatim>\<open>NULL\<close>.
\<close>

record PyModuleDef =
  m_name :: string
  m_doc :: "string option"
  m_size :: int
  m_methods :: "PyMethodDef list option"

text \<open>The flag values of \<^verbatim>\<open>methodobject.h\<close>.\<close>

definition METH_VARARGS :: int where
  "METH_VARARGS = 0x0001"

definition METH_CLASS :: int where
  "METH_CLASS = 0x0010"

definition METH_STATIC :: int where
  "METH_STATIC = 0x0020"

text \<open>
  Attributes are modelled for module objects only: reading a missing attribute, or
  any attribute of another kind of object, is \<^verbatim>\<open>AttributeError\<close>.
\<close>

definition PyObject_SetAttrString :: "addr \<Rightarrow> string \<Rightarrow> addr \<Rightarrow> interp \<Rightarrow> int \<times> interp" where
  "PyObject_SetAttrString m name v st =
     (case obj_at st m of
        Some (PyModuleV n d s) \<Rightarrow>
          (0, st\<lparr>heap := (heap st)[m - 1 := PyModuleV n (AList.update name v d) s]\<rparr>)
      | _ \<Rightarrow> (- 1, st\<lparr>err := Some AttributeError\<rparr>))"

definition PyObject_GetAttrString :: "addr \<Rightarrow> string \<Rightarrow> interp \<Rightarrow> addr \<times> interp" where
  "PyObject_GetAttrString m name st =
     (case obj_at st m of
        Some (PyModuleV n d s) \<Rightarrow>
          (case map_of d name of
             Some v \<Rightarrow> (v, st)
           | None \<Rightarrow> raise_err AttributeError st)
      | _ \<Rightarrow> raise_err AttributeError st)"

text \<open>
  \<^verbatim>\<open>PyModule_New(name)\<close> makes an empty module; its name goes through
  \<^verbatim>\<open>PyUnicode_FromString\<close>, so it must be well-formed UTF-8.
\<close>

definition PyModule_New :: "string \<Rightarrow> interp \<Rightarrow> addr \<times> interp" where
  "PyModule_New name st =
     (if utf8_valid (map of_char (c_str name))
      then alloc (PyModuleV (c_str name) [] None) st
      else raise_err UnicodeDecodeError st)"

text \<open>
  \<^verbatim>\<open>PyCFunction_NewEx(ml, self, module)\<close> makes the function object of a method
  definition. Only the calling convention \<^verbatim>\<open>METH_VARARGS\<close> is modelled; any
  other flag word is answered with \<^verbatim>\<open>SystemError\<close>.
\<close>

definition PyCFunction_NewEx :: "PyMethodDef \<Rightarrow> addr \<Rightarrow> interp \<Rightarrow> addr \<times> interp" where
  "PyCFunction_NewEx ml self st =
     (if ml_flags ml = METH_VARARGS
      then alloc (PyCFunctionV ml self) st
      else raise_err SystemError st)"

text \<open>
  \<^verbatim>\<open>PyModule_AddFunctions(module, functions)\<close> walks the method table up to the
  first entry whose \<^verbatim>\<open>ml_name\<close> is \<^verbatim>\<open>NULL\<close> and binds each function in the
  module under its name; it returns 0, or -1 with an exception set. (A table
  without the sentinel makes the C loop read past the array; the model stops at
  the end of the list.)
\<close>

fun PyModule_AddFunctions :: "addr \<Rightarrow> PyMethodDef list \<Rightarrow> interp \<Rightarrow> int \<times> interp" where
  "PyModule_AddFunctions m [] st = (0, st)"
| "PyModule_AddFunctions m (fdef # rest) st =
     (case ml_name fdef of
        None \<Rightarrow> (0, st)
      | Some name \<Rightarrow>
          if ml_flags fdef AND METH_CLASS \<noteq> 0 \<or> ml_flags fdef AND METH_STATIC \<noteq> 0
          then (- 1, st\<lparr>err := Some ValueError\<rparr>)
          else
            (case PyCFunction_NewEx fdef m st of (func, st1) \<Rightarrow>
               if func = NULL then (- 1, st1)
               else
                 (case PyObject_SetAttrString m name func st1 of (rc, st2) \<Rightarrow>
                    if rc \<noteq> 0 then (- 1, st2)
                    else PyModule_AddFunctions m rest st2)))"

definition PyModule_SetDocString :: "addr \<Rightarrow> string \<Rightarrow> interp \<Rightarrow> int \<times> interp" where
  "PyModule_SetDocString m doc st =
     (case PyUnicode_FromString doc st of (v, st1) \<Rightarrow>
        if v = NULL then (- 1, st1)
        else PyObject_SetAttrString m ''__doc__'' v st1)"

text \<open>
  \<^verbatim>\<open>PyModule_Create(def)\<close>: a new module named \<^verbatim>\<open>m_name\<close>, a state block when
  \<^verbatim>\<open>m_size\<close> is positive, then the functions of \<^verbatim>\<open>m_methods\<close> and the
  docstring. It returns \<^verbatim>\<open>NULL\<close> with an exception set when a step fails.
\<close>

definition PyModule_Create :: "PyModuleDef \<Rightarrow> interp \<Rightarrow> addr \<times> interp" where
  "PyModule_Create md st =
     (case PyModule_New (m_name md) st of (m, st1) \<Rightarrow>
        if m = NULL then (NULL, st1)
        else
          let st2 =
            (if 0 < m_size md
             then st1\<lparr>heap := (heap st1)[m - 1 :=
                    PyModuleV (c_str (m_name md)) [] (Some (nat (m_size md)))]\<rparr>
             else st1)
          in
            (case (case m_methods md of
                     None \<Rightarrow> (0, st2)
                   | Some functions \<Rightarrow> PyModule_AddFunctions m functions st2)
             of (rc, st3) \<Rightarrow>
               if rc \<noteq> 0 then (NULL, st3)
               else
                 (case m_doc md of
                    None \<Rightarrow> (m, st3)
                  | Some doc \<Rightarrow>
                      (case PyModule_SetDocString m doc st3 of (rc', st4) \<Rightarrow>
                         if rc' \<noteq> 0 then (NULL, st4) else (m, st4)))))"

section \<open>The tables of \<^verbatim>\<open>hello.c\<close> and the init function\<close>

text \<open>
  \<^verbatim>\<open>static PyMethodDef HelloMethods[]\<close>: the entry for \<^verbatim>\<open>world\<close> and the
  sentinel \<^verbatim>\<open>{NULL, NULL, 0, NULL}\<close>.
\<close>

definition HelloMethods :: "PyMethodDef list" where
  "HelloMethods =
     [\<lparr>ml_name = Some ''world'', ml_meth = Some Fn_hello_world,
       ml_flags = METH_VARARGS, ml_doc = Some ''Return a greeting.''\<rparr>,
      \<lparr>ml_name = None, ml_meth = None, ml_flags = 0, ml_doc = None\<rparr>]"

text \<open>
  \<^verbatim>\<open>static struct PyModuleDef hellomodule = { PyModuleDef_HEAD_INIT, "demo", NULL,
  -1, HelloMethods }\<close>.
\<close>

definition hellomodule :: PyModuleDef where
  "hellomodule =
     \<lparr>m_name = ''demo'', m_doc = None, m_size = - 1, m_methods = Some HelloMethods\<rparr>"

text \<open>\<^verbatim>\<open>PyMODINIT_FUNC PyInit_demo(void) { return PyModule_Create(&hellomodule); }\<close>\<close>

definition PyInit_demo :: "interp \<Rightarrow> addr \<times> interp" where
  "PyInit_demo = PyModule_Create hellomodule"

text \<open>
  Every other definition of the file is \<^verbatim>\<open>static\<close>; the shared object exports
  one symbol.
\<close>

definition exported_symbols :: "(string \<times> (interp \<Rightarrow> addr \<times> interp)) list" where
  "exported_symbols = [(''PyInit_demo'', PyInit_demo)]"

text \<open>
  Loading an extension module \<open>name\<close>: the host looks the symbol
  \<^verbatim>\<open>PyInit_<name>\<close> up in the shared object and calls it; a missing symbol is
  \<^verbatim>\<open>ImportError\<close>.
\<close>

definition import_extension :: "string \<Rightarrow> interp \<Rightarrow> addr \<times> interp" where
  "import_extension name st =
     (case map_of exported_symbols (''PyInit_'' @ name) of
        None \<Rightarrow> raise_err ImportError st
      | Some init \<Rightarrow> init st)"

text \<open>The code behind a function pointer, in a given build.\<close>

fun code_at :: "build_config \<Rightarrow> code_ptr \<Rightarrow> addr \<Rightarrow> addr \<Rightarrow> interp \<Rightarrow> addr \<times> interp" where
  "code_at cfg Fn_hello_world = hello_world cfg"

text \<open>
  \<^verbatim>\<open>PyObject_Call(callable, args, kwargs)\<close> on a built-in function with flags
  \<^verbatim>\<open>METH_VARARGS\<close>: keyword arguments are refused with \<^verbatim>\<open>TypeError\<close>,
  otherwise \<^verbatim>\<open>ml_meth(m_self, args)\<close> runs. Keyword arguments are an association
  list, empty when there are none. An object that is not a built-in function is
  not callable in the model (\<^verbatim>\<open>TypeError\<close>); other calling conventions and a
  \<^verbatim>\<open>NULL\<close> function pointer are answered with \<^verbatim>\<open>SystemError\<close>.
\<close>

definition PyObject_Call ::
  "build_config \<Rightarrow> addr \<Rightarrow> addr \<Rightarrow> (string \<times> addr) list \<Rightarrow> interp \<Rightarrow> addr \<times> interp" where
  "PyObject_Call cfg callable args kwargs st =
     (case obj_at st callable of
        Some (PyCFunctionV ml self) \<Rightarrow>
          if ml_flags ml = METH_VARARGS then
            (if kwargs \<noteq> [] then raise_err TypeError st
             else
               (case ml_meth ml of
                  Some p \<Rightarrow> code_at cfg p self args st
                | None \<Rightarrow> raise_err SystemError st))
          else raise_err SystemError st
      | _ \<Rightarrow> raise_err TypeError st)"

section \<open>A host that can run out of memory\<close>

text \<open>
  The real allocator can fail. Here the heap has room for \<open>cap\<close> objects.
  \<^verbatim>\<open>PyUnicode_FromString\<close> allocates its result before it decodes, so on a
  full heap it returns \<^verbatim>\<open>NULL\<close> with \<^verbatim>\<open>MemoryError\<close> set; with room left
  it does what it does above.
\<close>

definition PyUnicode_FromString_mem :: "nat \<Rightarrow> string \<Rightarrow> interp \<Rightarrow> addr \<times> interp" where
  "PyUnicode_FromString_mem cap u st =
     (if length (heap st) < cap then PyUnicode_FromString u st
      else raise_err MemoryError st)"

text \<open>
  \<^verbatim>\<open>hello_world\<close> on this host: the same three \<^verbatim>\<open>return\<close> statements. It
  hands on whatever \<^verbatim>\<open>PyUnicode_FromString\<close> returns, \<^verbatim>\<open>NULL\<close> included.
\<close>

definition hello_world_mem ::
  "nat \<Rightarrow> build_config \<Rightarrow> addr \<Rightarrow> addr \<Rightarrow> interp \<Rightarrow> addr \<times> interp" where
  "hello_world_mem cap cfg self args =
     (if HELLO_MACRO cfg \<and> DYNAMIC_MACRO cfg then
        PyUnicode_FromString_mem cap ''Hello from Zig CC with Macro and Dynamic Macro!''
      else if HELLO_MACRO cfg then
        PyUnicode_FromString_mem cap ''Hello from Zig CC with Macro!''
      else
        PyUnicode_FromString_mem cap ''Hello from Zig CC!'')"

fun code_at_mem ::
  "nat \<Rightarrow> build_config \<Rightarrow> code_ptr \<Rightarrow> addr \<Rightarrow> addr \<Rightarrow> interp \<Rightarrow> addr \<times> interp" where
  "code_at_mem cap cfg Fn_hello_world = hello_world_mem cap cfg"

text \<open>
  \<^verbatim>\<open>PyObject_Call\<close> on this host. The call itself allocates nothing: the
  argument tuple and the keyword dictionary are the caller's.
\<close>

definition PyObject_Call_mem ::
  "nat \<Rightarrow> build_config \<Rightarrow> addr \<Rightarrow> addr \<Rightarrow> (string \<times> addr) list \<Rightarrow> interp
     \<Rightarrow> addr \<times> interp" where
  "PyObject_Call_mem cap cfg callable args kwargs st =
     (case obj_at st callable of
        Some (PyCFunctionV ml self) \<Rightarrow>
          if ml_flags ml = METH_VARARGS then
            (if kwargs \<noteq> [] then raise_err TypeError st
             else
               (case ml_meth ml of
                  Some p \<Rightarrow> code_at_mem cap cfg p self args st
                | None \<Rightarrow> raise_err SystemError st))
          else raise_err SystemError st
      | _ \<Rightarrow> raise_err TypeError st)"

section \<open>Sessions of calls\<close>

text \<open>
  What a caller of the loaded module can do, as a list of events: call
  \<^verbatim>\<open>hello_world\<close> with some \<open>self\<close> and \<open>args\<close>, or let the host do
  anything else to the interpreter state. \<open>run_session\<close> collects the text
  returned by each call, in order.
\<close>

datatype event = is_call: Call_world addr addr | Host_step "interp \<Rightarrow> interp"

fun run_session :: "build_config \<Rightarrow> event list \<Rightarrow> interp \<Rightarrow> string option list" where
  "run_session cfg [] st = []"
| "run_session cfg (Call_world self args # evs) st =
     (case hello_world cfg self args st of (r, st') \<Rightarrow>
        text_at st' r # run_session cfg evs st')"
| "run_session cfg (Host_step f # evs) st = run_session cfg evs (f st)"

section \<open>Facts about the host model\<close>

lemma c_str_literals:
  "c_str ''Hello from Zig CC with Macro and Dynamic Macro!'' =
     ''Hello from Zig CC with Macro and Dynamic Macro!''"
  "c_str ''Hello from Zig CC with Macro!'' = ''Hello from Zig CC with Macro!''"
  "c_str ''Hello from Zig CC!'' = ''Hello from Zig CC!''"
  "c_str ''demo'' = ''demo''"
  by (simp_all add: c_str_def)

lemma utf8_valid_literals:
  "utf8_valid (map of_char ''Hello from Zig CC with Macro and Dynamic Macro!'')"
  "utf8_valid (map of_char ''Hello from Zig CC with Macro!'')"
  "utf8_valid (map of_char ''Hello from Zig CC!'')"
  "utf8_valid (map of_char ''demo'')"
  by simp_all

lemma obj_at_alloc_new: "obj_at (snd (alloc v st)) (fst (alloc v st)) = Some v"
  by (simp add: alloc_def obj_at_def NULL_def)

lemma obj_at_alloc_old:
  "obj_at st a \<noteq> None \<Longrightarrow> obj_at (snd (alloc v st)) a = obj_at st a"
  by (auto simp add: alloc_def obj_at_def NULL_def nth_append split: if_splits)

lemma returned_text_alloc: "returned_text (alloc (PyUnicodeV s) st) = Some s"
  by (simp add: returned_text_def text_at_def obj_at_alloc_new)

lemma alloc_not_NULL: "fst (alloc v st) \<noteq> NULL"
  by (simp add: alloc_def NULL_def)

lemma err_alloc: "err (snd (alloc v st)) = err st"
  by (simp add: alloc_def)

lemma heap_alloc: "heap (snd (alloc v st)) = heap st @ [v]"
  by (simp add: alloc_def)

text \<open>
  The three literals are ASCII, so the conversion never takes its error branch:
  in every build \<open>hello_world\<close> is one allocation of a text object.
\<close>

lemma hello_world_alloc:
  "hello_world cfg self args st =
     alloc (PyUnicodeV
       (if HELLO_MACRO cfg \<and> DYNAMIC_MACRO cfg then
          ''Hello from Zig CC with Macro and Dynamic Macro!''
        else if HELLO_MACRO cfg then ''Hello from Zig CC with Macro!''
        else ''Hello from Zig CC!'')) st"
  by (simp add: hello_world_def PyUnicode_FromString_def c_str_literals utf8_valid_literals)

section \<open>The greeting\<close>

text \<open>
  C1. In every build where \<^verbatim>\<open>HELLO_MACRO\<close> is not defined, whether
  \<^verbatim>\<open>DYNAMIC_MACRO\<close> is defined or not, every call of \<open>world\<close> returns the
  text \<open>Hello from Zig CC!\<close>.
\<close>

theorem world_without_macro:
  "\<not> HELLO_MACRO cfg \<Longrightarrow>
     returned_text (hello_world cfg self args st) = Some ''Hello from Zig CC!''"
  by (simp add: hello_world_alloc returned_text_alloc)

theorem world_without_macro_witness:
  "\<not> HELLO_MACRO \<lparr>HELLO_MACRO = False, DYNAMIC_MACRO = True\<rparr> \<and>
   returned_text
     (hello_world \<lparr>HELLO_MACRO = False, DYNAMIC_MACRO = True\<rparr> 0 0
        \<lparr>heap = [], err = None\<rparr>) = Some ''Hello from Zig CC!''"
  using world_without_macro
    [of "\<lparr>HELLO_MACRO = False, DYNAMIC_MACRO = True\<rparr>" 0 0 "\<lparr>heap = [], err = None\<rparr>"]
  by simp

text \<open>
  C2. In every build where both \<^verbatim>\<open>HELLO_MACRO\<close> and \<^verbatim>\<open>DYNAMIC_MACRO\<close> are
  defined, every call of \<open>world\<close> returns the text
  \<open>Hello from Zig CC with Macro and Dynamic Macro!\<close>.
\<close>

theorem world_with_both_macros:
  "HELLO_MACRO cfg \<Longrightarrow> DYNAMIC_MACRO cfg \<Longrightarrow>
     returned_text (hello_world cfg self args st) =
       Some ''Hello from Zig CC with Macro and Dynamic Macro!''"
  by (simp add: hello_world_alloc returned_text_alloc)

theorem world_with_both_macros_witness:
  "HELLO_MACRO \<lparr>HELLO_MACRO = True, DYNAMIC_MACRO = True\<rparr> \<and>
   DYNAMIC_MACRO \<lparr>HELLO_MACRO = True, DYNAMIC_MACRO = True\<rparr> \<and>
   returned_text
     (hello_world \<lparr>HELLO_MACRO = True, DYNAMIC_MACRO = True\<rparr> 0 0
        \<lparr>heap = [], err = None\<rparr>) =
     Some ''Hello from Zig CC with Macro and Dynamic Macro!''"
  using world_with_both_macros
    [of "\<lparr>HELLO_MACRO = True, DYNAMIC_MACRO = True\<rparr>" 0 0 "\<lparr>heap = [], err = None\<rparr>"]
  by simp

text \<open>
  C3. In every build where \<^verbatim>\<open>HELLO_MACRO\<close> is defined and \<^verbatim>\<open>DYNAMIC_MACRO\<close>
  is not, every call of \<open>world\<close> returns the text
  \<open>Hello from Zig CC with Macro!\<close>.
\<close>

theorem world_with_macro_only:
  "HELLO_MACRO cfg \<Longrightarrow> \<not> DYNAMIC_MACRO cfg \<Longrightarrow>
     returned_text (hello_world cfg self args st) = Some ''Hello from Zig CC with Macro!''"
  by (simp add: hello_world_alloc returned_text_alloc)

theorem world_with_macro_only_witness:
  "HELLO_MACRO \<lparr>HELLO_MACRO = True, DYNAMIC_MACRO = False\<rparr> \<and>
   \<not> DYNAMIC_MACRO \<lparr>HELLO_MACRO = True, DYNAMIC_MACRO = False\<rparr> \<and>
   returned_text
     (hello_world \<lparr>HELLO_MACRO = True, DYNAMIC_MACRO = False\<rparr> 0 0
        \<lparr>heap = [], err = None\<rparr>) = Some ''Hello from Zig CC with Macro!''"
  using world_with_macro_only
    [of "\<lparr>HELLO_MACRO = True, DYNAMIC_MACRO = False\<rparr>" 0 0 "\<lparr>heap = [], err = None\<rparr>"]
  by simp

text \<open>
  C5. \<open>world\<close> ignores its inputs. In a fixed build, two calls with any two
  \<open>self\<close> values and any two argument tuples do the same from the same
  interpreter state, and return the same text from any two interpreter states
  (so whatever the arguments point to).
\<close>

theorem world_ignores_inputs:
  "hello_world cfg self1 args1 st = hello_world cfg self2 args2 st
   \<and> returned_text (hello_world cfg self1 args1 st1) =
       returned_text (hello_world cfg self2 args2 st2)"
  by (simp add: hello_world_alloc returned_text_alloc)

theorem world_ignores_inputs_witness:
  "returned_text
     (hello_world \<lparr>HELLO_MACRO = True, DYNAMIC_MACRO = False\<rparr> 0 1
        \<lparr>heap = [PyTupleV []], err = None\<rparr>) =
   returned_text
     (hello_world \<lparr>HELLO_MACRO = True, DYNAMIC_MACRO = False\<rparr> 3 2
        \<lparr>heap = [PyLongV 5, PyTupleV [1, 1], PyNoneV], err = Some ValueError\<rparr>)"
  using world_ignores_inputs
    [of "\<lparr>HELLO_MACRO = True, DYNAMIC_MACRO = False\<rparr>" 0 1 _ 3 2
        "\<lparr>heap = [PyTupleV []], err = None\<rparr>"
        "\<lparr>heap = [PyLongV 5, PyTupleV [1, 1], PyNoneV], err = Some ValueError\<rparr>"]
  by (rule conjunct2)

lemma text_at_hello_world:
  "text_at (snd (hello_world cfg self args st)) (fst (hello_world cfg self args st)) =
     Some (if HELLO_MACRO cfg \<and> DYNAMIC_MACRO cfg then
             ''Hello from Zig CC with Macro and Dynamic Macro!''
           else if HELLO_MACRO cfg then ''Hello from Zig CC with Macro!''
           else ''Hello from Zig CC!'')"
  unfolding returned_text_def [symmetric]
  by (simp add: hello_world_alloc returned_text_alloc)

lemma run_session_texts:
  "run_session cfg evs st =
     replicate (length (filter is_call evs))
       (Some (if HELLO_MACRO cfg \<and> DYNAMIC_MACRO cfg then
                ''Hello from Zig CC with Macro and Dynamic Macro!''
              else if HELLO_MACRO cfg then ''Hello from Zig CC with Macro!''
              else ''Hello from Zig CC!''))"
proof (induction evs arbitrary: st)
  case Nil
  show ?case by simp
next
  case (Cons e evs)
  show ?case
  proof (cases e)
    case (Call_world self args)
    with Cons.IH show ?thesis
      by (simp add: case_prod_beta text_at_hello_world)
  next
    case (Host_step f)
    with Cons.IH show ?thesis by simp
  qed
qed

text \<open>
  C6. In a fixed build, take any session: any number of calls of \<open>world\<close>, with
  any arguments, interleaved in any order with arbitrary other steps of the host
  on the interpreter state. Every call returns a text, and each of these texts
  is the one that a call of \<open>world\<close> returns anywhere else.
\<close>

theorem world_repeatable:
  "run_session cfg evs st =
     replicate (length (filter is_call evs))
       (returned_text (hello_world cfg self0 args0 st0))
   \<and> returned_text (hello_world cfg self0 args0 st0) \<noteq> None"
  by (simp add: run_session_texts hello_world_alloc returned_text_alloc)

theorem world_repeatable_witness:
  "run_session \<lparr>HELLO_MACRO = True, DYNAMIC_MACRO = True\<rparr>
     [Call_world 0 0, Host_step (\<lambda>st. st\<lparr>heap := [], err := Some TypeError\<rparr>),
      Call_world 1 1, Call_world 7 2]
     \<lparr>heap = [], err = None\<rparr> =
   [Some ''Hello from Zig CC with Macro and Dynamic Macro!'',
    Some ''Hello from Zig CC with Macro and Dynamic Macro!'',
    Some ''Hello from Zig CC with Macro and Dynamic Macro!'']"
  using world_repeatable
    [of "\<lparr>HELLO_MACRO = True, DYNAMIC_MACRO = True\<rparr>"
        "[Call_world 0 0, Host_step (\<lambda>st. st\<lparr>heap := [], err := Some TypeError\<rparr>),
          Call_world 1 1, Call_world 7 2]"
        "\<lparr>heap = [], err = None\<rparr>" 0 0 "\<lparr>heap = [], err = None\<rparr>"]
  by (simp add: hello_world_alloc returned_text_alloc numeral_3_eq_3)

text \<open>
  C7. A call of \<open>world\<close> has no side effect on what existed before it: the
  error indicator is unchanged, the heap after the call is the heap before it
  with the one new result object appended, so every object that was there before
  the call is there unchanged after it; and the returned text does not depend on
  the state the call started from.
\<close>

theorem world_no_side_effects:
  "err (snd (hello_world cfg self args st)) = err st
   \<and> (\<exists>v. heap (snd (hello_world cfg self args st)) = heap st @ [v])
   \<and> (obj_at st a \<noteq> None \<longrightarrow>
        obj_at (snd (hello_world cfg self args st)) a = obj_at st a)
   \<and> returned_text (hello_world cfg self args st) =
       returned_text (hello_world cfg self args st')"
  by (simp add: hello_world_alloc obj_at_alloc_old obj_at_alloc_new err_alloc heap_alloc
      returned_text_alloc)

theorem world_no_side_effects_witness:
  "obj_at \<lparr>heap = [PyLongV 7, PyTupleV [1]], err = None\<rparr> 2 \<noteq> None
   \<and> obj_at (snd (hello_world \<lparr>HELLO_MACRO = False, DYNAMIC_MACRO = False\<rparr> 0 2
        \<lparr>heap = [PyLongV 7, PyTupleV [1]], err = None\<rparr>)) 2 = Some (PyTupleV [1])
   \<and> heap (snd (hello_world \<lparr>HELLO_MACRO = False, DYNAMIC_MACRO = False\<rparr> 0 2
        \<lparr>heap = [PyLongV 7, PyTupleV [1]], err = None\<rparr>)) =
       [PyLongV 7, PyTupleV [1], PyUnicodeV ''Hello from Zig CC!'']"
  using world_no_side_effects
    [of "\<lparr>HELLO_MACRO = False, DYNAMIC_MACRO = False\<rparr>" 0 2
        "\<lparr>heap = [PyLongV 7, PyTupleV [1]], err = None\<rparr>" 2 "\<lparr>heap = [], err = None\<rparr>"]
  by (simp add: obj_at_def NULL_def hello_world_alloc alloc_def)

text \<open>
  C8. In every build exactly one of three greetings is compiled in: the text that
  \<open>world\<close> returns is one of the three strings, which are pairwise different,
  and it depends on nothing but the two flags.
\<close>

theorem world_one_of_three:
  "returned_text (hello_world cfg self args st) \<in>
     {Some ''Hello from Zig CC!'',
      Some ''Hello from Zig CC with Macro!'',
      Some ''Hello from Zig CC with Macro and Dynamic Macro!''}
   \<and> distinct
       [''Hello from Zig CC!'',
        ''Hello from Zig CC with Macro!'',
        ''Hello from Zig CC with Macro and Dynamic Macro!'']
   \<and> (HELLO_MACRO cfg = HELLO_MACRO cfg' \<and> DYNAMIC_MACRO cfg = DYNAMIC_MACRO cfg' \<longrightarrow>
        returned_text (hello_world cfg self args st) =
          returned_text (hello_world cfg' self' args' st'))"
  by (simp add: hello_world_alloc returned_text_alloc)

theorem world_one_of_three_witness:
  "HELLO_MACRO \<lparr>HELLO_MACRO = True, DYNAMIC_MACRO = False\<rparr> =
     HELLO_MACRO \<lparr>HELLO_MACRO = True, DYNAMIC_MACRO = False\<rparr>
   \<and> DYNAMIC_MACRO \<lparr>HELLO_MACRO = True, DYNAMIC_MACRO = False\<rparr> =
     DYNAMIC_MACRO \<lparr>HELLO_MACRO = True, DYNAMIC_MACRO = False\<rparr>
   \<and> returned_text
       (hello_world \<lparr>HELLO_MACRO = True, DYNAMIC_MACRO = False\<rparr> 0 0
          \<lparr>heap = [], err = None\<rparr>) =
     returned_text
       (hello_world \<lparr>HELLO_MACRO = True, DYNAMIC_MACRO = False\<rparr> 1 1
          \<lparr>heap = [PyTupleV []], err = None\<rparr>)"
  using world_one_of_three
    [of "\<lparr>HELLO_MACRO = True, DYNAMIC_MACRO = False\<rparr>" 0 0 "\<lparr>heap = [], err = None\<rparr>"
        "\<lparr>HELLO_MACRO = True, DYNAMIC_MACRO = False\<rparr>" 1 1
        "\<lparr>heap = [PyTupleV []], err = None\<rparr>"]
  by simp

section \<open>Loading the module\<close>

lemma world_flags:
  "METH_VARARGS AND METH_CLASS = 0" "METH_VARARGS AND METH_STATIC = 0"
  by (simp_all add: METH_VARARGS_def METH_CLASS_def METH_STATIC_def)

text \<open>
  What \<open>PyInit_demo\<close> does to any interpreter state: two new objects, the module
  and the function object of \<open>world\<close> bound to it.
\<close>

lemma PyInit_demo_result:
  "PyInit_demo st =
     (Suc (length (heap st)),
      st\<lparr>heap := heap st @
         [PyModuleV ''demo'' [(''world'', Suc (Suc (length (heap st))))] None,
          PyCFunctionV (hd HelloMethods) (Suc (length (heap st)))]\<rparr>)"
  by (simp add: PyInit_demo_def PyModule_Create_def hellomodule_def PyModule_New_def
      c_str_literals utf8_valid_literals HelloMethods_def world_flags
      PyCFunction_NewEx_def PyObject_SetAttrString_def alloc_def obj_at_def NULL_def
      nth_append list_update_append)

lemma import_demo: "import_extension ''demo'' = PyInit_demo"
  by (rule ext) (simp add: import_extension_def exported_symbols_def)

lemma loaded_objects:
  "obj_at (snd (PyInit_demo st)) (fst (PyInit_demo st)) =
     Some (PyModuleV ''demo'' [(''world'', Suc (fst (PyInit_demo st)))] None)"
  "obj_at (snd (PyInit_demo st)) (Suc (fst (PyInit_demo st))) =
     Some (PyCFunctionV (hd HelloMethods) (fst (PyInit_demo st)))"
  by (simp_all add: PyInit_demo_result obj_at_def NULL_def nth_append)

lemma loaded_frame:
  "fst (PyInit_demo st) \<noteq> NULL" "err (snd (PyInit_demo st)) = err st"
  by (simp_all add: PyInit_demo_result NULL_def)

lemma hd_HelloMethods:
  "hd HelloMethods \<in> set HelloMethods"
  "ml_name (hd HelloMethods) = Some ''world''"
  "ml_meth (hd HelloMethods) = Some Fn_hello_world"
  "ml_flags (hd HelloMethods) = METH_VARARGS"
  by (simp_all add: HelloMethods_def)

text \<open>
  C9. Right after the module is loaded under the name \<open>demo\<close>, with no further
  step, the operation is there under the name \<open>world\<close>: loading succeeds, the
  method table has an entry that binds the name \<open>world\<close> to \<open>hello_world\<close>, the
  init function has installed the function object of that entry in the module
  under that name, looking the name up yields it, and calling it with any
  argument tuple runs \<open>hello_world\<close> (with the module as \<open>self\<close>).
\<close>

theorem world_registered_on_load:
  assumes "import_extension ''demo'' st = (m, st')"
  shows "m \<noteq> NULL \<and> err st' = err st
    \<and> (\<exists>ml \<in> set HelloMethods.
          ml_name ml = Some ''world'' \<and> ml_meth ml = Some Fn_hello_world
          \<and> obj_at st' (fst (PyObject_GetAttrString m ''world'' st')) = Some (PyCFunctionV ml m))
    \<and> code_at cfg Fn_hello_world = hello_world cfg
    \<and> fst (PyObject_GetAttrString m ''world'' st') \<noteq> NULL
    \<and> snd (PyObject_GetAttrString m ''world'' st') = st'
    \<and> PyObject_Call cfg (fst (PyObject_GetAttrString m ''world'' st')) args [] st' =
        hello_world cfg m args st'"
proof -
  from assms have m: "m = fst (PyInit_demo st)" and st': "st' = snd (PyInit_demo st)"
    by (simp_all add: import_demo)
  have lookup: "PyObject_GetAttrString m ''world'' st' = (Suc m, st')"
    unfolding m st' by (simp add: PyObject_GetAttrString_def loaded_objects)
  have func: "obj_at st' (Suc m) = Some (PyCFunctionV (hd HelloMethods) m)"
    unfolding m st' by (rule loaded_objects)
  have call: "PyObject_Call cfg (Suc m) args [] st' = hello_world cfg m args st'"
    by (simp add: PyObject_Call_def func hd_HelloMethods)
  have entry: "\<exists>ml \<in> set HelloMethods.
          ml_name ml = Some ''world'' \<and> ml_meth ml = Some Fn_hello_world
          \<and> obj_at st' (fst (PyObject_GetAttrString m ''world'' st')) = Some (PyCFunctionV ml m)"
    using hd_HelloMethods func by (intro bexI [of _ "hd HelloMethods"]) (simp_all add: lookup)
  have ok: "m \<noteq> NULL" "err st' = err st"
    unfolding m st' by (rule loaded_frame)+
  from ok entry call show ?thesis
    by (simp add: lookup NULL_def)
qed


theorem world_registered_on_load_witness:
  "import_extension ''demo'' \<lparr>heap = [], err = None\<rparr> =
     (1, \<lparr>heap = [PyModuleV ''demo'' [(''world'', 2)] None,
                  PyCFunctionV (hd HelloMethods) 1], err = None\<rparr>)
   \<and> PyObject_Call \<lparr>HELLO_MACRO = False, DYNAMIC_MACRO = False\<rparr>
       (fst (PyObject_GetAttrString 1 ''world''
          \<lparr>heap = [PyModuleV ''demo'' [(''world'', 2)] None,
                   PyCFunctionV (hd HelloMethods) 1], err = None\<rparr>))
       0 []
       \<lparr>heap = [PyModuleV ''demo'' [(''world'', 2)] None,
                PyCFunctionV (hd HelloMethods) 1], err = None\<rparr> =
     hello_world \<lparr>HELLO_MACRO = False, DYNAMIC_MACRO = False\<rparr> 1 0
       \<lparr>heap = [PyModuleV ''demo'' [(''world'', 2)] None,
                PyCFunctionV (hd HelloMethods) 1], err = None\<rparr>"
proof -
  have load:
    "import_extension ''demo'' \<lparr>heap = [], err = None\<rparr> =
       (1, \<lparr>heap = [PyModuleV ''demo'' [(''world'', 2)] None,
                    PyCFunctionV (hd HelloMethods) 1], err = None\<rparr>)"
    by (simp add: import_demo PyInit_demo_result numeral_2_eq_2)
  from world_registered_on_load
    [OF load, of "\<lparr>HELLO_MACRO = False, DYNAMIC_MACRO = False\<rparr>" 0]
  have "PyObject_Call \<lparr>HELLO_MACRO = False, DYNAMIC_MACRO = False\<rparr>
       (fst (PyObject_GetAttrString 1 ''world''
          \<lparr>heap = [PyModuleV ''demo'' [(''world'', 2)] None,
                   PyCFunctionV (hd HelloMethods) 1], err = None\<rparr>))
       0 []
       \<lparr>heap = [PyModuleV ''demo'' [(''world'', 2)] None,
                PyCFunctionV (hd HelloMethods) 1], err = None\<rparr> =
     hello_world \<lparr>HELLO_MACRO = False, DYNAMIC_MACRO = False\<rparr> 1 0
       \<lparr>heap = [PyModuleV ''demo'' [(''world'', 2)] None,
                PyCFunctionV (hd HelloMethods) 1], err = None\<rparr>"
    by (elim conjE)
  with load show ?thesis by (rule conjI)
qed


text \<open>
  C10. The module is loaded under the name \<open>demo\<close>: that is its \<^verbatim>\<open>m_name\<close>,
  and the exported symbol \<^verbatim>\<open>PyInit_demo\<close> is the init function, which creates
  the module from \<open>hellomodule\<close>. The method table of \<open>hellomodule\<close> is
  \<open>HelloMethods\<close>: the entry \<open>world\<close> with flags \<^verbatim>\<open>METH_VARARGS\<close>, then the
  sentinel, and nothing else. \<^verbatim>\<open>m_size\<close> is -1, and the loaded module has no
  state block and the one attribute \<open>world\<close>. Under \<^verbatim>\<open>METH_VARARGS\<close> the
  host refuses a call of \<open>world\<close> with keyword arguments.
\<close>

theorem module_definition_shape:
  "m_name hellomodule = ''demo''
   \<and> map_of exported_symbols (''PyInit_'' @ m_name hellomodule) = Some PyInit_demo
   \<and> map fst exported_symbols = [''PyInit_demo'']
   \<and> PyInit_demo = PyModule_Create hellomodule
   \<and> m_methods hellomodule = Some HelloMethods
   \<and> length HelloMethods = 2
   \<and> ml_name (HelloMethods ! 0) = Some ''world''
   \<and> ml_meth (HelloMethods ! 0) = Some Fn_hello_world
   \<and> ml_flags (HelloMethods ! 0) = METH_VARARGS
   \<and> HelloMethods ! 1 = \<lparr>ml_name = None, ml_meth = None, ml_flags = 0, ml_doc = None\<rparr>
   \<and> takeWhile (\<lambda>ml. ml_name ml \<noteq> None) HelloMethods = [HelloMethods ! 0]
   \<and> m_size hellomodule = - 1
   \<and> obj_at (snd (PyInit_demo st)) (fst (PyInit_demo st)) =
       Some (PyModuleV ''demo'' [(''world'', Suc (fst (PyInit_demo st)))] None)
   \<and> obj_at (snd (PyInit_demo st)) (Suc (fst (PyInit_demo st))) =
       Some (PyCFunctionV (HelloMethods ! 0) (fst (PyInit_demo st)))
   \<and> (kwargs \<noteq> [] \<longrightarrow>
        PyObject_Call cfg (Suc (fst (PyInit_demo st))) args kwargs (snd (PyInit_demo st)) =
          raise_err TypeError (snd (PyInit_demo st)))"
proof -
  have name: "m_name hellomodule = ''demo''"
    and table: "m_methods hellomodule = Some HelloMethods"
    and size: "m_size hellomodule = - 1"
    by (simp_all add: hellomodule_def)
  have symbol: "map_of exported_symbols (''PyInit_'' @ m_name hellomodule) = Some PyInit_demo"
    and symbols: "map fst exported_symbols = [''PyInit_demo'']"
    by (simp_all add: exported_symbols_def name)
  have len: "length HelloMethods = 2"
    and sentinel:
      "HelloMethods ! 1 = \<lparr>ml_name = None, ml_meth = None, ml_flags = 0, ml_doc = None\<rparr>"
    and hd0: "hd HelloMethods = HelloMethods ! 0"
    and before: "takeWhile (\<lambda>ml. ml_name ml \<noteq> None) HelloMethods = [HelloMethods ! 0]"
    by (simp_all add: HelloMethods_def)
  note entry = hd_HelloMethods(2-4) [unfolded hd0]
  note loaded = loaded_objects [of st, unfolded hd0]
  have refused:
    "kwargs \<noteq> [] \<longrightarrow>
       PyObject_Call cfg (Suc (fst (PyInit_demo st))) args kwargs (snd (PyInit_demo st)) =
         raise_err TypeError (snd (PyInit_demo st))"
    by (simp add: PyObject_Call_def loaded entry)
  show ?thesis
    by (intro conjI name symbol symbols PyInit_demo_def table len entry sentinel before
        size loaded refused)
qed

theorem module_definition_shape_witness:
  "[(''name'', 0)] \<noteq> ([] :: (string \<times> addr) list)
   \<and> PyObject_Call \<lparr>HELLO_MACRO = False, DYNAMIC_MACRO = False\<rparr>
       (Suc (fst (PyInit_demo \<lparr>heap = [], err = None\<rparr>))) 0 [(''name'', 0)]
       (snd (PyInit_demo \<lparr>heap = [], err = None\<rparr>)) =
     raise_err TypeError (snd (PyInit_demo \<lparr>heap = [], err = None\<rparr>))"
  using module_definition_shape
    [of "\<lparr>heap = [], err = None\<rparr>" "[(''name'', 0)]"
        "\<lparr>HELLO_MACRO = False, DYNAMIC_MACRO = False\<rparr>" 0]
  by simp

section \<open>Calls that fail, and calls that cannot\<close>

text \<open>With room on the heap, \<open>hello_world\<close> runs as on the host that always has room.\<close>

lemma hello_world_mem_room:
  "length (heap st) < cap \<Longrightarrow>
     hello_world_mem cap cfg self args st = hello_world cfg self args st"
  by (simp add: hello_world_mem_def hello_world_def PyUnicode_FromString_mem_def)

lemma hello_world_mem_full:
  "cap \<le> length (heap st) \<Longrightarrow>
     hello_world_mem cap cfg self args st = raise_err MemoryError st"
  by (simp add: hello_world_mem_def PyUnicode_FromString_mem_def)

lemma call_world_positional:
  "obj_at st f = Some (PyCFunctionV (hd HelloMethods) m) \<Longrightarrow>
     PyObject_Call_mem cap cfg f args [] st = hello_world_mem cap cfg m args st"
  by (simp add: PyObject_Call_mem_def hd_HelloMethods)

lemma call_world_keywords:
  "obj_at st f = Some (PyCFunctionV (hd HelloMethods) m) \<Longrightarrow> kwargs \<noteq> [] \<Longrightarrow>
     PyObject_Call_mem cap cfg f args kwargs st = raise_err TypeError st"
  by (simp add: PyObject_Call_mem_def hd_HelloMethods)

text \<open>
  C4, as the specification states it, does not hold: not every invocation of
  \<open>world\<close> succeeds. In the freshly loaded module, with room on the heap, a call
  of \<open>world\<close> with the keyword argument \<open>name\<close> returns \<^verbatim>\<open>NULL\<close> with
  \<^verbatim>\<open>TypeError\<close> set (the entry is registered \<^verbatim>\<open>METH_VARARGS\<close>); and on a
  heap with no room \<open>hello_world\<close> itself returns \<^verbatim>\<open>NULL\<close> with
  \<^verbatim>\<open>MemoryError\<close> set.
\<close>

theorem world_can_fail_counterexample:
  "import_extension ''demo'' \<lparr>heap = [], err = None\<rparr> =
     (1, \<lparr>heap = [PyModuleV ''demo'' [(''world'', 2)] None,
                  PyCFunctionV (hd HelloMethods) 1], err = None\<rparr>)
   \<and> PyObject_GetAttrString 1 ''world''
       \<lparr>heap = [PyModuleV ''demo'' [(''world'', 2)] None,
                PyCFunctionV (hd HelloMethods) 1], err = None\<rparr> =
     (2, \<lparr>heap = [PyModuleV ''demo'' [(''world'', 2)] None,
                  PyCFunctionV (hd HelloMethods) 1], err = None\<rparr>)
   \<and> PyObject_Call_mem 10 \<lparr>HELLO_MACRO = False, DYNAMIC_MACRO = False\<rparr> 2 0 [(''name'', 0)]
       \<lparr>heap = [PyModuleV ''demo'' [(''world'', 2)] None,
                PyCFunctionV (hd HelloMethods) 1], err = None\<rparr> =
     (NULL, \<lparr>heap = [PyModuleV ''demo'' [(''world'', 2)] None,
                     PyCFunctionV (hd HelloMethods) 1], err = Some TypeError\<rparr>)
   \<and> hello_world_mem 0 \<lparr>HELLO_MACRO = False, DYNAMIC_MACRO = False\<rparr> 0 0
       \<lparr>heap = [], err = None\<rparr> =
     (NULL, \<lparr>heap = [], err = Some MemoryError\<rparr>)"
proof -
  let ?st = "\<lparr>heap = [PyModuleV ''demo'' [(''world'', 2)] None,
                     PyCFunctionV (hd HelloMethods) 1], err = None\<rparr>"
  have load: "import_extension ''demo'' \<lparr>heap = [], err = None\<rparr> = (1, ?st)"
    by (simp add: import_demo PyInit_demo_result numeral_2_eq_2)
  have lookup: "PyObject_GetAttrString 1 ''world'' ?st = (2, ?st)"
    by (simp add: PyObject_GetAttrString_def obj_at_def NULL_def)
  have func: "obj_at ?st 2 = Some (PyCFunctionV (hd HelloMethods) 1)"
    by (simp add: obj_at_def NULL_def)
  have keyword:
    "PyObject_Call_mem 10 \<lparr>HELLO_MACRO = False, DYNAMIC_MACRO = False\<rparr> 2 0 [(''name'', 0)] ?st =
       (NULL, ?st\<lparr>err := Some TypeError\<rparr>)"
    using call_world_keywords
      [OF func, where kwargs = "[(''name'', 0)]" and cap = 10 and args = 0
        and cfg = "\<lparr>HELLO_MACRO = False, DYNAMIC_MACRO = False\<rparr>"]
    by (simp add: raise_err_def)
  have full:
    "hello_world_mem 0 \<lparr>HELLO_MACRO = False, DYNAMIC_MACRO = False\<rparr> 0 0
       \<lparr>heap = [], err = None\<rparr> = (NULL, \<lparr>heap = [], err = Some MemoryError\<rparr>)"
    by (simp add: hello_world_mem_full raise_err_def)
  from load lookup keyword full show ?thesis by simp
qed

text \<open>
  C4, amended. Every invocation of \<open>world\<close> with positional arguments only, made
  while the host has room for the result object, succeeds: whether
  \<open>hello_world\<close> is called directly with any \<open>self\<close> and any argument tuple,
  or the registered function object is called through the host with any
  argument tuple and no keyword arguments, the result is not \<^verbatim>\<open>NULL\<close>, the
  error indicator is left as it was, and the result is a text object whose text
  is not empty.
\<close>

theorem world_succeeds_positional:
  assumes room: "length (heap st) < cap"
    and func: "obj_at st f = Some (PyCFunctionV (hd HelloMethods) m)"
  shows "fst (hello_world_mem cap cfg self args st) \<noteq> NULL
    \<and> err (snd (hello_world_mem cap cfg self args st)) = err st
    \<and> returned_text (hello_world_mem cap cfg self args st) \<noteq> None
    \<and> returned_text (hello_world_mem cap cfg self args st) \<noteq> Some []
    \<and> fst (PyObject_Call_mem cap cfg f args [] st) \<noteq> NULL
    \<and> err (snd (PyObject_Call_mem cap cfg f args [] st)) = err st
    \<and> returned_text (PyObject_Call_mem cap cfg f args [] st) \<noteq> None
    \<and> returned_text (PyObject_Call_mem cap cfg f args [] st) \<noteq> Some []"
proof -
  have direct: "fst (hello_world_mem cap cfg s a st) \<noteq> NULL
    \<and> err (snd (hello_world_mem cap cfg s a st)) = err st
    \<and> returned_text (hello_world_mem cap cfg s a st) \<noteq> None
    \<and> returned_text (hello_world_mem cap cfg s a st) \<noteq> Some []" for s a
    by (simp add: hello_world_mem_room [OF room] hello_world_alloc returned_text_alloc
        alloc_not_NULL err_alloc)
  from direct [of self args] direct [of m args] show ?thesis
    by (simp add: call_world_positional [OF func])
qed

theorem world_succeeds_positional_witness:
  "length (heap \<lparr>heap = [PyModuleV ''demo'' [(''world'', 2)] None,
                        PyCFunctionV (hd HelloMethods) 1, PyTupleV [1, 1]], err = None\<rparr>) < 4
   \<and> obj_at \<lparr>heap = [PyModuleV ''demo'' [(''world'', 2)] None,
                    PyCFunctionV (hd HelloMethods) 1, PyTupleV [1, 1]], err = None\<rparr> 2 =
       Some (PyCFunctionV (hd HelloMethods) 1)
   \<and> fst (PyObject_Call_mem 4 \<lparr>HELLO_MACRO = True, DYNAMIC_MACRO = False\<rparr> 2 3 []
       \<lparr>heap = [PyModuleV ''demo'' [(''world'', 2)] None,
                PyCFunctionV (hd HelloMethods) 1, PyTupleV [1, 1]], err = None\<rparr>) \<noteq> NULL
   \<and> returned_text
       (PyObject_Call_mem 4 \<lparr>HELLO_MACRO = True, DYNAMIC_MACRO = False\<rparr> 2 3 []
          \<lparr>heap = [PyModuleV ''demo'' [(''world'', 2)] None,
                   PyCFunctionV (hd HelloMethods) 1, PyTupleV [1, 1]], err = None\<rparr>) \<noteq> None"
proof -
  let ?st = "\<lparr>heap = [PyModuleV ''demo'' [(''world'', 2)] None,
                     PyCFunctionV (hd HelloMethods) 1, PyTupleV [1, 1]], err = None\<rparr>"
  have room: "length (heap ?st) < 4"
    by simp
  have func: "obj_at ?st 2 = Some (PyCFunctionV (hd HelloMethods) 1)"
    by (simp add: obj_at_def NULL_def)
  from world_succeeds_positional
    [OF room func, where cfg = "\<lparr>HELLO_MACRO = True, DYNAMIC_MACRO = False\<rparr>"
      and self = 0 and args = 3]
  have "fst (PyObject_Call_mem 4 \<lparr>HELLO_MACRO = True, DYNAMIC_MACRO = False\<rparr> 2 3 [] ?st) \<noteq> NULL
    \<and> returned_text
        (PyObject_Call_mem 4 \<lparr>HELLO_MACRO = True, DYNAMIC_MACRO = False\<rparr> 2 3 [] ?st) \<noteq> None"
    by (elim conjE) (intro conjI)
  with room func show ?thesis
    by (intro conjI) (elim conjE, assumption)+
qed

end
